theory Spec2Isabelle
  imports Complex_Main "HOL-Library.Sublist"
begin

section \<open>Data model\<close>

text \<open>
  The application is a set of Express route handlers over a PostgreSQL database.
  A handler is modelled as a function from the database state and the request to the
  HTTP response and the new database state. The tables are the ones of
  \<^verbatim>\<open>createTables\<close>; a table is the list of its rows, and a \<^verbatim>\<open>SELECT\<close>
  without \<^verbatim>\<open>ORDER BY\<close> returns the rows in table order.

  Conventions of the model.
  \<^item> Request fields have the types of the documented request schemas: an integer field
    is an \<open>int\<close>, a number field a \<open>rat\<close>, an optional field an \<open>option\<close>. What the
    validator checks beyond the type (\<^verbatim>\<open>min\<close>, \<^verbatim>\<open>notEmpty\<close>, \<^verbatim>\<open>isIn\<close>) is checked in the
    model and answers 400 with the validator's messages.
  \<^item> Numbers are exact rationals: the rounding of JavaScript doubles is not modelled.
    A value stored in a \<^verbatim>\<open>DECIMAL(10, 2)\<close> column is rounded to two fractional digits,
    as PostgreSQL does on assignment.
  \<^item> Size limits of column types that raise an error (the range of \<^verbatim>\<open>INTEGER\<close>, the
    length of \<^verbatim>\<open>VARCHAR(255)\<close>, the precision of \<^verbatim>\<open>DECIMAL(10, 2)\<close>) are not
    modelled: values are taken to fit. The declared constraints \<^verbatim>\<open>NOT NULL\<close>,
    \<^verbatim>\<open>UNIQUE\<close> and \<^verbatim>\<open>REFERENCES\<close> are modelled: a statement that violates one raises,
    and the handler's \<^verbatim>\<open>catch\<close> answers 500.
  \<^item> A \<^verbatim>\<open>SERIAL\<close> column takes the next value of its sequence; an \<^verbatim>\<open>INSERT\<close> that
    fails on a constraint has consumed that value.
\<close>

type_synonym timestamp = int

text \<open>The payload of a verified token: \<^verbatim>\<open>jwt.sign({ userId: user.id, role: user.role }, ...)\<close>.\<close>

record identity =
  userId :: int
  role :: string

text \<open>A cart line, \<^verbatim>\<open>{ productId, quantity, price }\<close>; orders store lists of the same shape.\<close>

record item =
  productId :: int
  quantity :: int
  price :: rat

record user_row =
  u_id :: int
  u_email :: string
  u_password :: string
  u_role :: string

record category_row =
  c_id :: int
  c_name :: string
  c_description :: "string option"

text \<open>\<^verbatim>\<open>image_url TEXT NOT NULL\<close>: a product row always carries an image URL.\<close>

record product_row =
  p_id :: int
  p_name :: string
  p_description :: "string option"
  p_price :: rat
  p_stock :: int
  p_category_id :: int
  p_image_url :: string

text \<open>\<^verbatim>\<open>items JSONB DEFAULT '[]'\<close> is nullable.\<close>

record cart_row =
  cart_id :: int
  cart_user_id :: int
  cart_items :: "item list option"

record order_row =
  o_id :: int
  o_user_id :: int
  o_items :: "item list"
  o_total_price :: rat
  o_order_date :: timestamp

record db =
  users :: "user_row list"
  users_id_seq :: int
  categories :: "category_row list"
  categories_id_seq :: int
  products :: "product_row list"
  products_id_seq :: int
  carts :: "cart_row list"
  carts_id_seq :: int
  orders :: "order_row list"
  orders_id_seq :: int

text \<open>
  The external collaborators of a request: the JWT library, bcrypt, the image host, the
  e-mail check of the validator library and the database clock.
\<close>

record env =
  jwt_verify :: "string \<Rightarrow> identity option"
  jwt_sign :: "identity \<Rightarrow> string"
  bcrypt_hash :: "string \<Rightarrow> string"
  bcrypt_compare :: "string \<Rightarrow> string \<Rightarrow> bool"
  cloudinary_upload :: "string \<Rightarrow> string option"
  isEmail :: "string \<Rightarrow> bool"
  current_timestamp :: timestamp

datatype payload =
    NoBody
  | Errors "string list"
  | Message string
  | ErrorMsg string
  | UserCreated string int string string
  | Token string
  | Panel string identity
  | Products "product_row list"
  | ProductList "product_row list" nat int int
  | Product product_row
  | ProductDeleted string product_row
  | Categories "category_row list"
  | Category category_row
  | Cart cart_row
  | CartTotal string rat
  | Orders "order_row list"
  | Order order_row

type_synonym response = "nat \<times> payload"

section \<open>Storage of decimals\<close>

text \<open>PostgreSQL rounds a numeric to the scale of the column, ties away from zero.\<close>

definition round2 :: "rat \<Rightarrow> rat" where
  "round2 x =
     (if 0 \<le> x then of_int \<lfloor>x * 100 + 1 / 2\<rfloor> / 100
      else - (of_int \<lfloor>- x * 100 + 1 / 2\<rfloor> / 100))"

section \<open>Middleware\<close>

text \<open>\<^verbatim>\<open>authHeader.split(" ")\<close>.\<close>

fun split_space :: "string \<Rightarrow> string list" where
  "split_space [] = [[]]"
| "split_space (c # cs) =
     (if c = CHR '' '' then [] # split_space cs
      else (case split_space cs of [] \<Rightarrow> [[c]] | w # ws \<Rightarrow> (c # w) # ws))"

text \<open>
  \<^verbatim>\<open>authenticateJWT\<close>: no (or an empty) Authorization header answers 401; a token that
  does not verify, also a missing one, answers 403; otherwise the payload is \<^verbatim>\<open>req.user\<close>.
\<close>

definition authenticateJWT :: "env \<Rightarrow> string option \<Rightarrow> response + identity" where
  "authenticateJWT e authorization =
     (case authorization of
        None \<Rightarrow> Inl (401, NoBody)
      | Some authHeader \<Rightarrow>
          if authHeader = [] then Inl (401, NoBody)
          else (case split_space authHeader of
                  _ # token # _ \<Rightarrow>
                    (case jwt_verify e token of
                       None \<Rightarrow> Inl (403, NoBody)
                     | Some user \<Rightarrow> Inr user)
                | _ \<Rightarrow> Inl (403, NoBody)))"

text \<open>\<^verbatim>\<open>authorizeAdmin\<close>: \<^verbatim>\<open>req.user.role !== "admin"\<close> answers 403.\<close>

definition authorizeAdmin :: "identity \<Rightarrow> response option" where
  "authorizeAdmin user =
     (if role user \<noteq> ''admin'' then Some (403, Message ''Forbidden. Admin access required.'')
      else None)"

section \<open>Cart\<close>

text \<open>\<^verbatim>\<open>Array.prototype.findIndex\<close>; \<open>None\<close> is the \<open>-1\<close> of JavaScript.\<close>

fun findIndex :: "('a \<Rightarrow> bool) \<Rightarrow> 'a list \<Rightarrow> nat option" where
  "findIndex P [] = None"
| "findIndex P (x # xs) = (if P x then Some 0 else map_option Suc (findIndex P xs))"

text \<open>\<^verbatim>\<open>cartItems.reduce((sum, item) => sum + item.price, 0)\<close>.\<close>

definition totalPrice :: "item list \<Rightarrow> rat" where
  "totalPrice cartItems = foldl (\<lambda>sum it. sum + price it) 0 cartItems"

text \<open>\<^verbatim>\<open>SELECT * FROM carts WHERE user_id = $1\<close>.\<close>

definition select_carts :: "db \<Rightarrow> int \<Rightarrow> cart_row list" where
  "select_carts d uid = filter (\<lambda>c. cart_user_id c = uid) (carts d)"

text \<open>\<^verbatim>\<open>UPDATE carts SET items = $1 WHERE user_id = $2\<close>.\<close>

definition update_carts :: "db \<Rightarrow> int \<Rightarrow> item list \<Rightarrow> db" where
  "update_carts d uid cartItems =
     d\<lparr>carts := map (\<lambda>c. if cart_user_id c = uid then c\<lparr>cart_items := Some cartItems\<rparr> else c)
                   (carts d)\<rparr>"

text \<open>\<^verbatim>\<open>cartResult.rows[0].items || []\<close>.\<close>

definition items_or_empty :: "cart_row \<Rightarrow> item list" where
  "items_or_empty cart = (case cart_items cart of None \<Rightarrow> [] | Some xs \<Rightarrow> xs)"

text \<open>
  \<^verbatim>\<open>GET /cart\<close>. The \<^verbatim>\<open>INSERT\<close> needs the user to exist (\<^verbatim>\<open>user_id REFERENCES users(id)\<close>).
\<close>

definition getCart :: "env \<Rightarrow> db \<Rightarrow> string option \<Rightarrow> response \<times> db" where
  "getCart e d authorization =
     (case authenticateJWT e authorization of
        Inl r \<Rightarrow> (r, d)
      | Inr user \<Rightarrow>
          (case select_carts d (userId user) of
             cart # _ \<Rightarrow> ((200, Cart cart), d)
           | [] \<Rightarrow>
               if userId user \<in> u_id ` set (users d) then
                 let d' = d\<lparr>carts := carts d @
                              [\<lparr>cart_id = carts_id_seq d, cart_user_id = userId user,
                                cart_items = Some []\<rparr>],
                            carts_id_seq := carts_id_seq d + 1\<rparr>
                 in (case select_carts d' (userId user) of
                       newCart # _ \<Rightarrow> ((200, Cart newCart), d')
                     | [] \<Rightarrow> ((200, NoBody), d'))
               else ((500, ErrorMsg ''Failed to get cart''),
                     d\<lparr>carts_id_seq := carts_id_seq d + 1\<rparr>)))"

text \<open>
  \<^verbatim>\<open>POST /cart\<close>. A user with no cart row makes \<^verbatim>\<open>cartResult.rows[0].items\<close> throw, and
  the \<^verbatim>\<open>catch\<close> answers 500.
\<close>

definition addItem :: "env \<Rightarrow> db \<Rightarrow> string option \<Rightarrow> int \<Rightarrow> int \<Rightarrow> response \<times> db" where
  "addItem e d authorization pid qty =
     (case authenticateJWT e authorization of
        Inl r \<Rightarrow> (r, d)
      | Inr user \<Rightarrow>
          if qty < 1 then ((400, Errors [''Quantity must be at least 1'']), d)
          else
            (case filter (\<lambda>p. p_id p = pid) (products d) of
               [] \<Rightarrow> ((404, Message ''Product not found''), d)
             | product # _ \<Rightarrow>
                 let itemPrice = p_price product * of_int qty in
                 (case select_carts d (userId user) of
                    [] \<Rightarrow> ((500, ErrorMsg ''Failed to add to cart''), d)
                  | cart # _ \<Rightarrow>
                      let cartItems = items_or_empty cart;
                          cartItems' =
                            (case findIndex (\<lambda>it. productId it = pid) cartItems of
                               Some i \<Rightarrow>
                                 cartItems[i := (cartItems ! i)
                                    \<lparr>quantity := quantity (cartItems ! i) + qty\<rparr>]
                             | None \<Rightarrow>
                                 cartItems @
                                   [\<lparr>productId = pid, quantity = qty, price = itemPrice\<rparr>])
                      in ((200, CartTotal ''Item added to cart'' (totalPrice cartItems')),
                          update_carts d (userId user) cartItems'))))"

text \<open>\<^verbatim>\<open>DELETE /cart/:productId\<close>.\<close>

definition removeItem :: "env \<Rightarrow> db \<Rightarrow> string option \<Rightarrow> int \<Rightarrow> response \<times> db" where
  "removeItem e d authorization pid =
     (case authenticateJWT e authorization of
        Inl r \<Rightarrow> (r, d)
      | Inr user \<Rightarrow>
          (case select_carts d (userId user) of
             [] \<Rightarrow> ((500, ErrorMsg ''Failed to remove from cart''), d)
           | cart # _ \<Rightarrow>
               let cartItems = filter (\<lambda>it. productId it \<noteq> pid) (items_or_empty cart)
               in ((200, CartTotal ''Item removed from cart'' (totalPrice cartItems)),
                   update_carts d (userId user) cartItems)))"

section \<open>Orders\<close>

text \<open>\<^verbatim>\<open>SELECT * FROM orders WHERE user_id = $1 ORDER BY order_date DESC\<close>.\<close>

definition select_orders :: "db \<Rightarrow> int \<Rightarrow> order_row list" where
  "select_orders d uid =
     sort_key (\<lambda>ord. - o_order_date ord) (filter (\<lambda>ord. o_user_id ord = uid) (orders d))"

definition listOrders :: "env \<Rightarrow> db \<Rightarrow> string option \<Rightarrow> response \<times> db" where
  "listOrders e d authorization =
     (case authenticateJWT e authorization of
        Inl r \<Rightarrow> (r, d)
      | Inr user \<Rightarrow> ((200, Orders (select_orders d (userId user))), d))"

text \<open>The validators of \<^verbatim>\<open>POST /orders\<close>, in the order they are declared.\<close>

definition order_errors :: "item list \<Rightarrow> rat \<Rightarrow> string list" where
  "order_errors its total_price =
     (if length its < 1 then [''Items must be an array with at least one item''] else []) @
     map (\<lambda>_. ''Quantity must be at least 1'') (filter (\<lambda>it. quantity it < 1) its) @
     (if total_price < 0 then [''Total price must be a positive number''] else [])"

text \<open>
  \<^verbatim>\<open>POST /orders\<close>: the items and the total of the request body are stored as sent; the
  row gets the next id and the current time. \<^verbatim>\<open>user_id REFERENCES users(id)\<close>.
\<close>

definition placeOrder ::
  "env \<Rightarrow> db \<Rightarrow> string option \<Rightarrow> item list \<Rightarrow> rat \<Rightarrow> response \<times> db" where
  "placeOrder e d authorization its total_price =
     (case authenticateJWT e authorization of
        Inl r \<Rightarrow> (r, d)
      | Inr user \<Rightarrow>
          if order_errors its total_price \<noteq> [] then
            ((400, Errors (order_errors its total_price)), d)
          else if userId user \<in> u_id ` set (users d) then
            let row = \<lparr>o_id = orders_id_seq d, o_user_id = userId user, o_items = its,
                       o_total_price = round2 total_price,
                       o_order_date = current_timestamp e\<rparr>
            in ((201, Order row),
                d\<lparr>orders := orders d @ [row], orders_id_seq := orders_id_seq d + 1\<rparr>)
          else ((500, ErrorMsg ''Failed to create order''),
                d\<lparr>orders_id_seq := orders_id_seq d + 1\<rparr>))"

section \<open>Catalog: listing with filters\<close>

text \<open>
  The pattern language of \<^verbatim>\<open>LIKE\<close>: \<^verbatim>\<open>%\<close> matches any run of characters, \<^verbatim>\<open>_\<close> any
  single character, a backslash takes the next character literally. The first argument
  is the pattern.
\<close>

fun like_match :: "string \<Rightarrow> string \<Rightarrow> bool" where
  "like_match [] t = (t = [])"
| "like_match (p # ps) [] = (p = CHR ''%'' \<and> like_match ps [])"
| "like_match (p # ps) (c # cs) =
     (if p = CHR ''%'' then like_match ps (c # cs) \<or> like_match (p # ps) cs
      else if p = CHR ''_'' then like_match ps cs
      else if p = CHR 0x5C then
        (case ps of [] \<Rightarrow> False | q # qs \<Rightarrow> q = c \<and> like_match qs cs)
      else p = c \<and> like_match ps cs)"

text \<open>\<^verbatim>\<open>ILIKE\<close> compares without regard to the case of the letters A to Z.\<close>

definition lower :: "char \<Rightarrow> char" where
  "lower c =
     (if 65 \<le> (of_char c :: nat) \<and> (of_char c :: nat) \<le> 90
      then char_of ((of_char c :: nat) + 32) else c)"

definition ilike :: "string \<Rightarrow> string \<Rightarrow> bool" where
  "ilike pattern t = like_match (map lower pattern) (map lower t)"

text \<open>The query string of \<^verbatim>\<open>GET /products/list\<close>.\<close>

record list_query =
  page :: "int option"
  limit :: "int option"
  minPrice :: "rat option"
  maxPrice :: "rat option"
  category :: "int option"
  search :: "string option"

text \<open>The conditions that the handler appends to \<^verbatim>\<open>WHERE 1=1\<close>, each with its parameter.\<close>

datatype cond =
    Price_ge rat
  | Price_le rat
  | Category_eq int
  | Name_ilike string

fun cond_holds :: "product_row \<Rightarrow> cond \<Rightarrow> bool" where
  "cond_holds p (Price_ge v) = (v \<le> p_price p)"
| "cond_holds p (Price_le v) = (p_price p \<le> v)"
| "cond_holds p (Category_eq v) = (p_category_id p = v)"
| "cond_holds p (Name_ilike v) = ilike v (p_name p)"

definition where_holds :: "cond list \<Rightarrow> product_row \<Rightarrow> bool" where
  "where_holds conds p = list_all (cond_holds p) conds"

text \<open>
  The query values are strings, so a supplied \<^verbatim>\<open>minPrice\<close>, \<^verbatim>\<open>maxPrice\<close> or \<^verbatim>\<open>category\<close>
  is truthy, also \<^verbatim>\<open>"0"\<close>; only the empty \<^verbatim>\<open>search\<close> is falsy.
\<close>

definition whereClause :: "list_query \<Rightarrow> cond list" where
  "whereClause q =
     (case minPrice q of None \<Rightarrow> [] | Some v \<Rightarrow> [Price_ge v]) @
     (case maxPrice q of None \<Rightarrow> [] | Some v \<Rightarrow> [Price_le v]) @
     (case category q of None \<Rightarrow> [] | Some v \<Rightarrow> [Category_eq v]) @
     (case search q of None \<Rightarrow> []
      | Some s \<Rightarrow> if s = [] then [] else [Name_ilike (''%'' @ s @ ''%'')])"

definition list_errors :: "list_query \<Rightarrow> string list" where
  "list_errors q =
     (case page q of None \<Rightarrow> []
      | Some v \<Rightarrow> if v < 1 then [''Page must be a positive integer''] else []) @
     (case limit q of None \<Rightarrow> []
      | Some v \<Rightarrow> if v < 1 then [''Limit must be a positive integer''] else []) @
     (case minPrice q of None \<Rightarrow> []
      | Some v \<Rightarrow> if v < 0 then [''Min price must be a non-negative number''] else []) @
     (case maxPrice q of None \<Rightarrow> []
      | Some v \<Rightarrow> if v < 0 then [''Max price must be a non-negative number''] else [])"

text \<open>
  \<^verbatim>\<open>GET /products/list\<close>: the page query and the count query share \<^verbatim>\<open>whereClause\<close>;
  the first adds \<^verbatim>\<open>LIMIT limit OFFSET (page - 1) * limit\<close>.
\<close>

definition listProducts :: "db \<Rightarrow> list_query \<Rightarrow> response \<times> db" where
  "listProducts d q =
     (if list_errors q \<noteq> [] then ((400, Errors (list_errors q)), d)
      else
        let page' = (case page q of None \<Rightarrow> 1 | Some v \<Rightarrow> v);
            limit' = (case limit q of None \<Rightarrow> 10 | Some v \<Rightarrow> v);
            offset = (page' - 1) * limit';
            rows = take (nat limit')
                     (drop (nat offset) (filter (where_holds (whereClause q)) (products d)));
            totalCount = length (filter (where_holds (whereClause q)) (products d))
        in ((200, ProductList rows totalCount page'
                    \<lceil>(of_nat totalCount :: rat) / of_int limit'\<rceil>), d))"

section \<open>Catalog: products\<close>

definition getProducts :: "db \<Rightarrow> response \<times> db" where
  "getProducts d = ((200, Products (products d)), d)"

definition getProduct :: "db \<Rightarrow> int \<Rightarrow> response \<times> db" where
  "getProduct d pid =
     (case filter (\<lambda>p. p_id p = pid) (products d) of
        [] \<Rightarrow> ((404, Message ''Product not found''), d)
      | product # _ \<Rightarrow> ((200, Product product), d))"

text \<open>The body of \<^verbatim>\<open>POST /products\<close> and \<^verbatim>\<open>PUT /products/:id\<close>.\<close>

record product_body =
  b_name :: string
  b_description :: string
  b_price :: rat
  b_stock :: int
  b_category_id :: int
  b_image :: "string option"

definition product_errors :: "product_body \<Rightarrow> string list" where
  "product_errors b =
     (if b_name b = [] then [''Name is required''] else []) @
     (if b_description b = [] then [''Description is required''] else []) @
     (if b_price b < 0 then [''Price must be a positive number''] else []) @
     (if b_stock b < 0 then [''Stock must be a non-negative integer''] else [])"

text \<open>\<^verbatim>\<open>if (image)\<close>: an absent and an empty image are both falsy.\<close>

definition image_given :: "product_body \<Rightarrow> string option" where
  "image_given b =
     (case b_image b of None \<Rightarrow> None | Some img \<Rightarrow> if img = [] then None else Some img)"

text \<open>
  \<^verbatim>\<open>POST /products\<close>. A failed upload is caught and leaves \<^verbatim>\<open>imageUrl\<close> null. The \<^verbatim>\<open>INSERT\<close>
  raises on a null \<^verbatim>\<open>image_url\<close> and on a \<^verbatim>\<open>category_id\<close> that no category has.
\<close>

definition createProduct :: "env \<Rightarrow> db \<Rightarrow> string option \<Rightarrow> product_body \<Rightarrow> response \<times> db" where
  "createProduct e d authorization b =
     (case authenticateJWT e authorization of
        Inl r \<Rightarrow> (r, d)
      | Inr user \<Rightarrow>
          (case authorizeAdmin user of
             Some r \<Rightarrow> (r, d)
           | None \<Rightarrow>
               if product_errors b \<noteq> [] then ((400, Errors (product_errors b)), d)
               else
                 let imageUrl = (case image_given b of None \<Rightarrow> None
                                 | Some img \<Rightarrow> cloudinary_upload e img);
                     d' = d\<lparr>products_id_seq := products_id_seq d + 1\<rparr>
                 in (case imageUrl of
                       None \<Rightarrow> ((500, ErrorMsg ''Failed to create product''), d')
                     | Some url \<Rightarrow>
                         if b_category_id b \<in> c_id ` set (categories d) then
                           let row = \<lparr>p_id = products_id_seq d, p_name = b_name b,
                                      p_description = Some (b_description b),
                                      p_price = round2 (b_price b), p_stock = b_stock b,
                                      p_category_id = b_category_id b, p_image_url = url\<rparr>
                           in ((201, Product row), d'\<lparr>products := products d @ [row]\<rparr>)
                         else ((500, ErrorMsg ''Failed to create product''), d'))))"

text \<open>
  \<^verbatim>\<open>PUT /products/:id\<close>. Here a failed upload throws. \<^verbatim>\<open>imageUrl\<close> starts as null and is
  set only when an image is given; the \<^verbatim>\<open>UPDATE\<close> of an existing row raises on a null
  \<^verbatim>\<open>image_url\<close> and on an unknown \<^verbatim>\<open>category_id\<close>; with no row of that id it changes
  nothing and the handler answers 404.
\<close>

definition updateProduct ::
  "env \<Rightarrow> db \<Rightarrow> string option \<Rightarrow> int \<Rightarrow> product_body \<Rightarrow> response \<times> db" where
  "updateProduct e d authorization pid b =
     (case authenticateJWT e authorization of
        Inl r \<Rightarrow> (r, d)
      | Inr user \<Rightarrow>
          (case authorizeAdmin user of
             Some r \<Rightarrow> (r, d)
           | None \<Rightarrow>
               if product_errors b \<noteq> [] then ((400, Errors (product_errors b)), d)
               else
                 (case (case image_given b of None \<Rightarrow> Inr None
                        | Some img \<Rightarrow>
                            (case cloudinary_upload e img of
                               None \<Rightarrow> Inl () | Some url \<Rightarrow> Inr (Some url))) of
                    Inl _ \<Rightarrow> ((500, ErrorMsg ''Failed to update product''), d)
                  | Inr imageUrl \<Rightarrow>
                      if filter (\<lambda>p. p_id p = pid) (products d) = [] then
                        ((404, Message ''Product not found''), d)
                      else
                        (case imageUrl of
                           None \<Rightarrow> ((500, ErrorMsg ''Failed to update product''), d)
                         | Some url \<Rightarrow>
                             if b_category_id b \<in> c_id ` set (categories d) then
                               let upd = (\<lambda>p. p\<lparr>p_name := b_name b,
                                                 p_description := Some (b_description b),
                                                 p_price := round2 (b_price b),
                                                 p_stock := b_stock b,
                                                 p_category_id := b_category_id b,
                                                 p_image_url := url\<rparr>);
                                   d' = d\<lparr>products :=
                                           map (\<lambda>p. if p_id p = pid then upd p else p)
                                             (products d)\<rparr>
                               in (case filter (\<lambda>p. p_id p = pid) (products d') of
                                     [] \<Rightarrow> ((404, Message ''Product not found''), d')
                                   | row # _ \<Rightarrow> ((200, Product row), d'))
                             else ((500, ErrorMsg ''Failed to update product''), d)))))"

text \<open>\<^verbatim>\<open>DELETE /products/:id\<close>.\<close>

definition deleteProduct :: "env \<Rightarrow> db \<Rightarrow> string option \<Rightarrow> int \<Rightarrow> response \<times> db" where
  "deleteProduct e d authorization pid =
     (case authenticateJWT e authorization of
        Inl r \<Rightarrow> (r, d)
      | Inr user \<Rightarrow>
          (case authorizeAdmin user of
             Some r \<Rightarrow> (r, d)
           | None \<Rightarrow>
               (case filter (\<lambda>p. p_id p = pid) (products d) of
                  [] \<Rightarrow> ((404, Message ''Product not found''), d)
                | row # _ \<Rightarrow>
                    ((200, ProductDeleted ''Product deleted'' row),
                     d\<lparr>products := filter (\<lambda>p. p_id p \<noteq> pid) (products d)\<rparr>))))"

section \<open>Catalog: categories\<close>

text \<open>
  The category routes run \<^verbatim>\<open>authenticateJWT\<close> and the validators only: the file
  declares \<^verbatim>\<open>authorizeAdmin\<close> after the routes, and no route uses it.
\<close>

definition getCategories :: "db \<Rightarrow> response \<times> db" where
  "getCategories d = ((200, Categories (categories d)), d)"

text \<open>\<^verbatim>\<open>POST /categories\<close>; \<^verbatim>\<open>name VARCHAR(255) UNIQUE NOT NULL\<close>.\<close>

definition createCategory ::
  "env \<Rightarrow> db \<Rightarrow> string option \<Rightarrow> string \<Rightarrow> string option \<Rightarrow> response \<times> db" where
  "createCategory e d authorization name description =
     (case authenticateJWT e authorization of
        Inl r \<Rightarrow> (r, d)
      | Inr user \<Rightarrow>
          if name = [] then ((400, Errors [''Name is required'']), d)
          else
            let d' = d\<lparr>categories_id_seq := categories_id_seq d + 1\<rparr> in
            if name \<in> c_name ` set (categories d) then
              ((500, ErrorMsg ''Failed to create category''), d')
            else
              let row = \<lparr>c_id = categories_id_seq d, c_name = name,
                         c_description = description\<rparr>
              in ((201, Category row), d'\<lparr>categories := categories d @ [row]\<rparr>))"

text \<open>
  \<^verbatim>\<open>PUT /categories/:id\<close>: \<^verbatim>\<open>name\<close> is optional for the validator, and an absent name
  is sent as null. With no row of that id \<^verbatim>\<open>result.rows[0]\<close> is undefined and the
  answer is 200 with no body.
\<close>

definition updateCategory ::
  "env \<Rightarrow> db \<Rightarrow> string option \<Rightarrow> int \<Rightarrow> string option \<Rightarrow> string option \<Rightarrow> response \<times> db" where
  "updateCategory e d authorization cid name description =
     (case authenticateJWT e authorization of
        Inl r \<Rightarrow> (r, d)
      | Inr user \<Rightarrow>
          if filter (\<lambda>c. c_id c = cid) (categories d) = [] then ((200, NoBody), d)
          else
            (case name of
               None \<Rightarrow> ((500, ErrorMsg ''Failed to update category''), d)
             | Some n \<Rightarrow>
                 if n \<in> c_name ` set (filter (\<lambda>c. c_id c \<noteq> cid) (categories d)) then
                   ((500, ErrorMsg ''Failed to update category''), d)
                 else
                   let d' = d\<lparr>categories :=
                              map (\<lambda>c. if c_id c = cid
                                        then c\<lparr>c_name := n, c_description := description\<rparr>
                                        else c) (categories d)\<rparr>
                   in (case filter (\<lambda>c. c_id c = cid) (categories d') of
                         [] \<Rightarrow> ((200, NoBody), d')
                       | row # _ \<Rightarrow> ((200, Category row), d'))))"

text \<open>
  \<^verbatim>\<open>DELETE /categories/:id\<close>; a product that references the category blocks the delete
  (\<^verbatim>\<open>category_id INTEGER REFERENCES categories(id)\<close>).
\<close>

definition deleteCategory :: "env \<Rightarrow> db \<Rightarrow> string option \<Rightarrow> int \<Rightarrow> response \<times> db" where
  "deleteCategory e d authorization cid =
     (case authenticateJWT e authorization of
        Inl r \<Rightarrow> (r, d)
      | Inr user \<Rightarrow>
          if filter (\<lambda>c. c_id c = cid) (categories d) \<noteq> [] \<and>
             cid \<in> p_category_id ` set (products d) then
            ((500, ErrorMsg ''Failed to delete category''), d)
          else
            ((200, Message ''Category deleted successfully''),
             d\<lparr>categories := filter (\<lambda>c. c_id c \<noteq> cid) (categories d)\<rparr>))"

section \<open>Auth\<close>

definition signup_errors :: "env \<Rightarrow> string \<Rightarrow> string \<Rightarrow> string \<Rightarrow> string list" where
  "signup_errors e email password rl =
     (if \<not> isEmail e email then [''Invalid email address''] else []) @
     (if length password < 6 then [''Password must be at least 6 characters long''] else []) @
     (if rl \<notin> {''admin'', ''customer''} then [''Invalid role''] else [])"

text \<open>
  \<^verbatim>\<open>POST /auth/signup\<close>. \<^verbatim>\<open>email VARCHAR(255) UNIQUE NOT NULL\<close>: the \<^verbatim>\<open>INSERT\<close> of a
  registered e-mail raises, and the \<^verbatim>\<open>catch\<close> answers 500.
\<close>

definition signup :: "env \<Rightarrow> db \<Rightarrow> string \<Rightarrow> string \<Rightarrow> string \<Rightarrow> response \<times> db" where
  "signup e d email password rl =
     (if signup_errors e email password rl \<noteq> [] then
        ((400, Errors (signup_errors e email password rl)), d)
      else
        let hashedPassword = bcrypt_hash e password;
            d' = d\<lparr>users_id_seq := users_id_seq d + 1\<rparr>
        in if email \<in> u_email ` set (users d) then
             ((500, ErrorMsg ''Failed to create user''), d')
           else
             let row = \<lparr>u_id = users_id_seq d, u_email = email, u_password = hashedPassword,
                        u_role = rl\<rparr>
             in ((201, UserCreated ''User created successfully'' (u_id row) (u_email row)
                         (u_role row)),
                 d'\<lparr>users := users d @ [row]\<rparr>))"

definition generateToken :: "env \<Rightarrow> user_row \<Rightarrow> string" where
  "generateToken e user = jwt_sign e \<lparr>userId = u_id user, role = u_role user\<rparr>"

definition login :: "env \<Rightarrow> db \<Rightarrow> string \<Rightarrow> string \<Rightarrow> response \<times> db" where
  "login e d email password =
     (let errors = (if \<not> isEmail e email then [''Invalid email address''] else []) @
                   (if password = [] then [''Password is required''] else [])
      in if errors \<noteq> [] then ((400, Errors errors), d)
         else
           (case filter (\<lambda>u. u_email u = email) (users d) of
              [] \<Rightarrow> ((401, ErrorMsg ''Invalid credentials''), d)
            | user # _ \<Rightarrow>
                if \<not> bcrypt_compare e password (u_password user) then
                  ((401, ErrorMsg ''Invalid credentials''), d)
                else ((200, Token (generateToken e user)), d)))"

section \<open>Protected pages\<close>

definition adminPanel :: "env \<Rightarrow> db \<Rightarrow> string option \<Rightarrow> response \<times> db" where
  "adminPanel e d authorization =
     (case authenticateJWT e authorization of
        Inl r \<Rightarrow> (r, d)
      | Inr user \<Rightarrow>
          if role user \<noteq> ''admin'' then
            ((403, Message ''Forbidden. Admin access required.''), d)
          else ((200, Panel ''Admin panel accessed'' user), d))"

definition customerDashboard :: "env \<Rightarrow> db \<Rightarrow> string option \<Rightarrow> response \<times> db" where
  "customerDashboard e d authorization =
     (case authenticateJWT e authorization of
        Inl r \<Rightarrow> (r, d)
      | Inr user \<Rightarrow>
          if role user \<noteq> ''customer'' then
            ((403, Message ''Forbidden. Customer access required.''), d)
          else ((200, Panel ''Customer dashboard accessed'' user), d))"

section \<open>The application\<close>

text \<open>One constructor for each route that the application mounts.\<close>

datatype request =
    Signup string string string
  | Login string string
  | AdminPanel "string option"
  | CustomerDashboard "string option"
  | ListProducts list_query
  | GetProducts
  | GetProduct int
  | CreateProduct "string option" product_body
  | UpdateProduct "string option" int product_body
  | DeleteProduct "string option" int
  | GetCategories
  | CreateCategory "string option" string "string option"
  | UpdateCategory "string option" int "string option" "string option"
  | DeleteCategory "string option" int
  | GetCart "string option"
  | AddItem "string option" int int
  | RemoveItem "string option" int
  | ListOrders "string option"
  | PlaceOrder "string option" "item list" rat

fun handle :: "env \<Rightarrow> db \<Rightarrow> request \<Rightarrow> response \<times> db" where
  "handle e d (Signup email password rl) = signup e d email password rl"
| "handle e d (Login email password) = login e d email password"
| "handle e d (AdminPanel a) = adminPanel e d a"
| "handle e d (CustomerDashboard a) = customerDashboard e d a"
| "handle e d (ListProducts q) = listProducts d q"
| "handle e d GetProducts = getProducts d"
| "handle e d (GetProduct pid) = getProduct d pid"
| "handle e d (CreateProduct a b) = createProduct e d a b"
| "handle e d (UpdateProduct a pid b) = updateProduct e d a pid b"
| "handle e d (DeleteProduct a pid) = deleteProduct e d a pid"
| "handle e d GetCategories = getCategories d"
| "handle e d (CreateCategory a name description) = createCategory e d a name description"
| "handle e d (UpdateCategory a cid name description) =
     updateCategory e d a cid name description"
| "handle e d (DeleteCategory a cid) = deleteCategory e d a cid"
| "handle e d (GetCart a) = getCart e d a"
| "handle e d (AddItem a pid qty) = addItem e d a pid qty"
| "handle e d (RemoveItem a pid) = removeItem e d a pid"
| "handle e d (ListOrders a) = listOrders e d a"
| "handle e d (PlaceOrder a its total_price) = placeOrder e d a its total_price"

text \<open>A history of requests, each with the environment it ran in; the final database.\<close>

fun run :: "db \<Rightarrow> (env \<times> request) list \<Rightarrow> db" where
  "run d [] = d"
| "run d ((e, r) # rs) = run (snd (handle e d r)) rs"

section \<open>Notions of the specification\<close>

text \<open>
  The lines of a user's cart as the cart handlers read them: the first cart row of the
  user, a null \<^verbatim>\<open>items\<close> read as the empty list; \<open>None\<close> when the user has no cart row.
\<close>

definition cart_of :: "db \<Rightarrow> int \<Rightarrow> item list option" where
  "cart_of d uid =
     (case select_carts d uid of [] \<Rightarrow> None | cart # _ \<Rightarrow> Some (items_or_empty cart))"




text \<open>A decimal with at most two fractional digits.\<close>

definition two_decimals :: "rat \<Rightarrow> bool" where
  "two_decimals x = (of_int \<lfloor>x * 100\<rfloor> = x * 100)"

section \<open>A sample shop\<close>

text \<open>
  An environment and a database to evaluate the handlers on: an admin (alice) and a
  customer (carol), one category, two products, and carol's cart holding one Widget
  added at the price of 10.
\<close>

definition shop_env :: env where
  "shop_env =
     \<lparr>jwt_verify =
        (\<lambda>token. if token = ''alice'' then Some \<lparr>userId = 1, role = ''admin''\<rparr>
                 else if token = ''carol'' then Some \<lparr>userId = 2, role = ''customer''\<rparr>
                 else None),
      jwt_sign = (\<lambda>user. role user),
      bcrypt_hash = (\<lambda>password. ''$2b$10$'' @ rev password),
      bcrypt_compare = (\<lambda>password hashed. hashed = ''$2b$10$'' @ rev password),
      cloudinary_upload = (\<lambda>img. Some (''https://res.cloudinary.com/'' @ img)),
      isEmail = (\<lambda>email. CHR ''@'' \<in> set email),
      current_timestamp = 1000\<rparr>"

definition widget :: product_row where
  "widget =
     \<lparr>p_id = 1, p_name = ''Widget'', p_description = Some ''A widget'', p_price = 10,
      p_stock = 5, p_category_id = 1, p_image_url = ''https://res.cloudinary.com/widget.png''\<rparr>"

definition gadget :: product_row where
  "gadget =
     \<lparr>p_id = 2, p_name = ''Gadget'', p_description = Some ''A gadget'', p_price = 5 / 2,
      p_stock = 8, p_category_id = 1, p_image_url = ''https://res.cloudinary.com/gadget.png''\<rparr>"

definition shop_db :: db where
  "shop_db =
     \<lparr>users = [\<lparr>u_id = 1, u_email = ''alice@shop.test'', u_password = ''$2b$10$terces'',
                 u_role = ''admin''\<rparr>,
               \<lparr>u_id = 2, u_email = ''carol@shop.test'', u_password = ''$2b$10$drowssap'',
                 u_role = ''customer''\<rparr>],
      users_id_seq = 3,
      categories = [\<lparr>c_id = 1, c_name = ''Electronics'', c_description = None\<rparr>],
      categories_id_seq = 2,
      products = [widget, gadget],
      products_id_seq = 3,
      carts = [\<lparr>cart_id = 1, cart_user_id = 2,
                 cart_items = Some [\<lparr>productId = 1, quantity = 1, price = 10\<rparr>]\<rparr>],
      carts_id_seq = 2,
      orders = [],
      orders_id_seq = 1\<rparr>"



text \<open>The order that carol places for the Widget line of her cart.\<close>

definition carol_order :: order_row where
  "carol_order = \<lparr>o_id = 1, o_user_id = 2,
                   o_items = [\<lparr>productId = 1, quantity = 1, price = 10\<rparr>],
                   o_total_price = 10, o_order_date = 1000\<rparr>"

section \<open>Lemmas on the cart\<close>




lemma findIndex_Some:
  "findIndex P xs = Some i \<Longrightarrow> i < length xs \<and> P (xs ! i) \<and> (\<forall>j < i. \<not> P (xs ! j))"
proof (induction xs arbitrary: i)
  case Nil
  then show ?case by simp
next
  case (Cons x xs)
  show ?case
  proof (cases "P x")
    case True
    with Cons.prems show ?thesis by simp
  next
    case False
    with Cons.prems obtain k where k: "findIndex P xs = Some k" "i = Suc k"
      by auto
    from Cons.IH [OF k(1)] False k(2) show ?thesis
      by (auto simp: less_Suc_eq_0_disj)
  qed
qed









text \<open>
  A user with no cart row: \<^verbatim>\<open>cartResult.rows[0]\<close> is undefined, reading its \<^verbatim>\<open>items\<close>
  throws, and both handlers answer 500. The row is created by \<^verbatim>\<open>GET /cart\<close>.
\<close>

lemma addItem_no_cart:
  assumes "authenticateJWT e a = Inr user" and "1 \<le> qty"
    and "filter (\<lambda>p. p_id p = pid) (products d) = product # rest"
    and "cart_of d (userId user) = None"
  shows "addItem e d a pid qty = ((500, ErrorMsg ''Failed to add to cart''), d)"
  using assms by (simp add: addItem_def cart_of_def split: list.splits)

lemma removeItem_no_cart:
  assumes "authenticateJWT e a = Inr user" and "cart_of d (userId user) = None"
  shows "removeItem e d a pid = ((500, ErrorMsg ''Failed to remove from cart''), d)"
  using assms by (simp add: removeItem_def cart_of_def split: list.splits)

lemma getCart_creates:
  assumes "authenticateJWT e a = Inr user" and "cart_of d (userId user) = None"
    and "userId user \<in> u_id ` set (users d)"
  shows "fst (fst (getCart e d a)) = 200 \<and> cart_of (snd (getCart e d a)) (userId user) = Some []"
  using assms
  by (simp add: getCart_def cart_of_def select_carts_def items_or_empty_def Let_def
      split: list.splits)


text \<open>The sample shop, evaluated.\<close>

lemma auth_carol:
  "authenticateJWT shop_env (Some ''Bearer carol'') = Inr \<lparr>userId = 2, role = ''customer''\<rparr>"
  by (simp add: authenticateJWT_def shop_env_def)




section \<open>The cart: adding and removing\<close>





section \<open>Lemmas on the listing\<close>



lemma floor_rat_numeral:
  "\<lfloor>numeral a / numeral b :: rat\<rfloor> = numeral a div numeral b"
  "\<lfloor>1 / numeral b :: rat\<rfloor> = 1 div numeral b"
  using floor_divide_of_int_eq [of "numeral a" "numeral b", where ?'a = rat]
    floor_divide_of_int_eq [of 1 "numeral b", where ?'a = rat]
  by simp_all

text \<open>
  Lower-casing keeps the three special characters of a pattern apart from all others.
\<close>

lemma lower_percent [simp]: "lower c = CHR ''%'' \<longleftrightarrow> c = CHR ''%''"
  by (auto simp: lower_def dest: arg_cong [where f = "of_char :: char \<Rightarrow> nat"])

lemma lower_underscore [simp]: "lower c = CHR ''_'' \<longleftrightarrow> c = CHR ''_''"
  by (auto simp: lower_def dest: arg_cong [where f = "of_char :: char \<Rightarrow> nat"])

lemma lower_backslash [simp]: "lower c = CHR 0x5C \<longleftrightarrow> c = CHR 0x5C"
  by (auto simp: lower_def dest: arg_cong [where f = "of_char :: char \<Rightarrow> nat"])













section \<open>The listing: filters\<close>




section \<open>The listing: pages\<close>




section \<open>Lemmas on orders\<close>

text \<open>No route but \<^verbatim>\<open>POST /orders\<close> writes the orders table, and that one appends.\<close>

lemma updateProduct_frame:
  "carts (snd (updateProduct e d a pid b)) = carts d \<and>
   orders (snd (updateProduct e d a pid b)) = orders d"
  by (simp add: updateProduct_def Let_def split: sum.split option.split list.split)

lemma signup_orders: "orders (snd (signup e d email password rl)) = orders d"
  by (simp add: signup_def Let_def)

lemma login_orders: "orders (snd (login e d email password)) = orders d"
  by (simp add: login_def Let_def split: list.split)

lemma adminPanel_orders: "orders (snd (adminPanel e d a)) = orders d"
  by (simp add: adminPanel_def split: sum.split)

lemma customerDashboard_orders: "orders (snd (customerDashboard e d a)) = orders d"
  by (simp add: customerDashboard_def split: sum.split)

lemma listProducts_orders: "orders (snd (listProducts d q)) = orders d"
  by (simp add: listProducts_def Let_def)

lemma getProduct_orders: "orders (snd (getProduct d pid)) = orders d"
  by (simp add: getProduct_def split: list.split)

lemma createProduct_orders: "orders (snd (createProduct e d a b)) = orders d"
  by (simp add: createProduct_def Let_def split: sum.split option.split)

lemma deleteProduct_orders: "orders (snd (deleteProduct e d a pid)) = orders d"
  by (simp add: deleteProduct_def split: sum.split option.split list.split)

lemma createCategory_orders: "orders (snd (createCategory e d a name description)) = orders d"
  by (simp add: createCategory_def Let_def split: sum.split)

lemma updateCategory_orders:
  "orders (snd (updateCategory e d a cid name description)) = orders d"
  by (simp add: updateCategory_def Let_def split: sum.split option.split list.split)

lemma deleteCategory_orders: "orders (snd (deleteCategory e d a cid)) = orders d"
  by (simp add: deleteCategory_def split: sum.split)

lemma getCart_orders: "orders (snd (getCart e d a)) = orders d"
  by (simp add: getCart_def Let_def split: sum.split list.split)

lemma addItem_orders: "orders (snd (addItem e d a pid qty)) = orders d"
  by (simp add: addItem_def Let_def update_carts_def split: sum.split option.split list.split)

lemma removeItem_orders: "orders (snd (removeItem e d a pid)) = orders d"
  by (simp add: removeItem_def Let_def update_carts_def split: sum.split list.split)

lemma listOrders_orders: "orders (snd (listOrders e d a)) = orders d"
  by (simp add: listOrders_def split: sum.split)

lemma placeOrder_orders: "\<exists>new. orders (snd (placeOrder e d a its tp)) = orders d @ new"
  by (simp add: placeOrder_def Let_def split: sum.split)

lemma handle_orders: "\<exists>new. orders (snd (handle e d r)) = orders d @ new"
  by (cases r)
    (simp_all add: signup_orders login_orders adminPanel_orders customerDashboard_orders
      listProducts_orders getProduct_orders createProduct_orders deleteProduct_orders
      createCategory_orders updateCategory_orders deleteCategory_orders getCart_orders
      addItem_orders removeItem_orders listOrders_orders placeOrder_orders
      updateProduct_frame getProducts_def getCategories_def)

lemma run_orders_prefix: "prefix (orders d) (orders (run d rs))"
proof (induction rs arbitrary: d)
  case Nil
  then show ?case by simp
next
  case (Cons x rs)
  obtain e r where x: "x = (e, r)" by (cases x)
  from handle_orders [of e d r] obtain new
    where n: "orders (snd (handle e d r)) = orders d @ new" by blast
  have "prefix (orders d) (orders (snd (handle e d r)))"
    by (simp add: n)
  also have "prefix (orders (snd (handle e d r))) (orders (run (snd (handle e d r)) rs))"
    by (rule Cons.IH)
  finally show ?case by (simp add: x)
qed

lemma round2_two_decimals: "two_decimals x \<Longrightarrow> round2 x = x"
proof -
  assume t: "two_decimals x"
  define n where "n = \<lfloor>x * 100\<rfloor>"
  from t have "of_int \<lfloor>x * 100\<rfloor> = x * 100"
    unfolding two_decimals_def .
  then have x: "x * 100 = of_int n"
    by (simp only: n_def)
  have p: "\<lfloor>x * 100 + 1 / 2\<rfloor> = n"
    unfolding x by (simp add: floor_unique)
  have "- x * 100 = of_int (- n)"
    using x by simp
  then have m: "\<lfloor>- x * 100 + 1 / 2\<rfloor> = - n"
    by (simp add: floor_unique)
  have "of_int n / 100 = x"
    using x by simp
  with p m show ?thesis
    by (simp add: round2_def)
qed

lemma select_orders_set:
  "set (select_orders d uid) = {ord \<in> set (orders d). o_user_id ord = uid}"
  by (auto simp: select_orders_def)

lemma select_orders_length:
  "length (select_orders d uid) = length (filter (\<lambda>ord. o_user_id ord = uid) (orders d))"
  by (simp add: select_orders_def)

lemma select_orders_sorted:
  "sorted_wrt (\<lambda>x y. o_order_date y \<le> o_order_date x) (select_orders d uid)"
proof -
  have "sorted (map (\<lambda>ord. - o_order_date ord) (select_orders d uid))"
    by (simp add: select_orders_def)
  then show ?thesis
    by (simp add: sorted_map)
qed

lemma placeOrder_created:
  assumes "authenticateJWT e a = Inr user"
    and "placeOrder e d a its tp = ((201, body), d')"
  shows "order_errors its tp = [] \<and> userId user \<in> u_id ` set (users d) \<and>
         body = Order \<lparr>o_id = orders_id_seq d, o_user_id = userId user, o_items = its,
                        o_total_price = round2 tp, o_order_date = current_timestamp e\<rparr> \<and>
         d' = d\<lparr>orders := orders d @
                   [\<lparr>o_id = orders_id_seq d, o_user_id = userId user, o_items = its,
                     o_total_price = round2 tp, o_order_date = current_timestamp e\<rparr>],
                 orders_id_seq := orders_id_seq d + 1\<rparr>"
  using assms by (auto simp: placeOrder_def Let_def split: if_splits)

lemma placeOrder_accepts:
  assumes "authenticateJWT e a = Inr user" and "order_errors its tp = []"
    and "userId user \<in> u_id ` set (users d)"
  shows "fst (fst (placeOrder e d a its tp)) = 201"
  using assms by (simp add: placeOrder_def Let_def)

lemma place_carol:
  "placeOrder shop_env shop_db (Some ''Bearer carol'')
     [\<lparr>productId = 1, quantity = 1, price = 10\<rparr>] 10 =
     ((201, Order carol_order), shop_db\<lparr>orders := [carol_order], orders_id_seq := 2\<rparr>)"
  by (simp add: placeOrder_def authenticateJWT_def shop_env_def shop_db_def order_errors_def
      round2_def floor_rat_numeral Let_def carol_order_def)

lemma listOrders_ok:
  assumes "authenticateJWT e a = Inr user"
  shows "listOrders e d a = ((200, Orders (select_orders d (userId user))), d)"
  using assms by (simp add: listOrders_def)

section \<open>Orders: the snapshot\<close>




section \<open>Orders: the history\<close>

text \<open>
  Claim C8, as amended. After \<^verbatim>\<open>placeOrder\<close> has accepted items \<open>I\<close> and a total \<open>T\<close>, and
  after any later requests, \<^verbatim>\<open>listOrders\<close> for the same user answers with that user's
  orders, all of them and no others, the latest order date first; among them is the
  order created, with the items \<open>I\<close> and the total \<open>T\<close> rounded to two decimals, which
  is \<open>T\<close> when \<open>T\<close> has at most two decimals.
\<close>

theorem placeOrder_listOrders:
  assumes "authenticateJWT e a = Inr user"
    and "placeOrder e d a its tp = ((201, body), d')"
    and "authenticateJWT e' a' = Inr user'"
    and "userId user' = userId user"
  shows "\<exists>row rows.
           body = Order row \<and> o_items row = its \<and> o_total_price row = round2 tp \<and>
           (two_decimals tp \<longrightarrow> o_total_price row = tp) \<and>
           listOrders e' (run d' rs) a' = ((200, Orders rows), run d' rs) \<and>
           row \<in> set rows \<and>
           set rows = {ord \<in> set (orders (run d' rs)). o_user_id ord = userId user} \<and>
           length rows =
             length (filter (\<lambda>ord. o_user_id ord = userId user) (orders (run d' rs))) \<and>
           sorted_wrt (\<lambda>x y. o_order_date y \<le> o_order_date x) rows"
proof -
  let ?row = "\<lparr>o_id = orders_id_seq d, o_user_id = userId user, o_items = its,
               o_total_price = round2 tp, o_order_date = current_timestamp e\<rparr>"
  let ?rows = "select_orders (run d' rs) (userId user)"
  from placeOrder_created [OF assms(1,2)]
  have b: "body = Order ?row" and d': "orders d' = orders d @ [?row]"
    by simp_all
  have "prefix (orders d') (orders (run d' rs))"
    by (rule run_orders_prefix)
  then have "set (orders d') \<subseteq> set (orders (run d' rs))"
    by (rule set_mono_prefix)
  with d' have "?row \<in> set (orders (run d' rs))"
    by auto
  then have mem: "?row \<in> set ?rows"
    by (simp add: select_orders_set)
  have l: "listOrders e' (run d' rs) a' = ((200, Orders ?rows), run d' rs)"
    using listOrders_ok [OF assms(3)] assms(4) by simp
  have "two_decimals tp \<longrightarrow> o_total_price ?row = tp"
    by (simp add: round2_two_decimals)
  with b mem l select_orders_set [of "run d' rs" "userId user"]
    select_orders_length [of "run d' rs" "userId user"]
    select_orders_sorted [of "run d' rs" "userId user"]
  show ?thesis
    by (intro exI [of _ ?row] exI [of _ ?rows]) simp
qed

text \<open>
  The claim as stated fails on a total with a third decimal: 0.005 is accepted and
  comes back as 0.01.
\<close>

theorem placeOrder_rounding_counterexample:
  "fst (placeOrder shop_env shop_db (Some ''Bearer carol'')
          [\<lparr>productId = 1, quantity = 1, price = 10\<rparr>] (1 / 200)) =
     (201, Order \<lparr>o_id = 1, o_user_id = 2,
                   o_items = [\<lparr>productId = 1, quantity = 1, price = 10\<rparr>],
                   o_total_price = 1 / 100, o_order_date = 1000\<rparr>) \<and>
   fst (listOrders shop_env
          (snd (placeOrder shop_env shop_db (Some ''Bearer carol'')
                  [\<lparr>productId = 1, quantity = 1, price = 10\<rparr>] (1 / 200)))
          (Some ''Bearer carol'')) =
     (200, Orders [\<lparr>o_id = 1, o_user_id = 2,
                     o_items = [\<lparr>productId = 1, quantity = 1, price = 10\<rparr>],
                     o_total_price = 1 / 100, o_order_date = 1000\<rparr>])"
  by (simp add: placeOrder_def listOrders_def select_orders_def authenticateJWT_def shop_env_def
      shop_db_def order_errors_def round2_def Let_def)

theorem placeOrder_listOrders_witness:
  "authenticateJWT shop_env (Some ''Bearer carol'') = Inr \<lparr>userId = 2, role = ''customer''\<rparr> \<and>
   placeOrder shop_env shop_db (Some ''Bearer carol'')
     [\<lparr>productId = 1, quantity = 1, price = 10\<rparr>] 10 =
     ((201, Order carol_order), shop_db\<lparr>orders := [carol_order], orders_id_seq := 2\<rparr>) \<and>
   two_decimals 10 \<and>
   (\<exists>rows. listOrders shop_env
        (run (shop_db\<lparr>orders := [carol_order], orders_id_seq := 2\<rparr>)
           [(shop_env, AddItem (Some ''Bearer carol'') 2 1)])
        (Some ''Bearer carol'') =
      ((200, Orders rows),
       run (shop_db\<lparr>orders := [carol_order], orders_id_seq := 2\<rparr>)
         [(shop_env, AddItem (Some ''Bearer carol'') 2 1)]) \<and>
      carol_order \<in> set rows \<and> o_items carol_order = [\<lparr>productId = 1, quantity = 1, price = 10\<rparr>] \<and>
      o_total_price carol_order = 10)"
proof -
  have t: "two_decimals 10"
    by (simp add: two_decimals_def)
  from placeOrder_listOrders [OF auth_carol place_carol auth_carol refl,
      of "[(shop_env, AddItem (Some ''Bearer carol'') 2 1)]"] t
  have "\<exists>rows. listOrders shop_env
        (run (shop_db\<lparr>orders := [carol_order], orders_id_seq := 2\<rparr>)
           [(shop_env, AddItem (Some ''Bearer carol'') 2 1)])
        (Some ''Bearer carol'') =
      ((200, Orders rows),
       run (shop_db\<lparr>orders := [carol_order], orders_id_seq := 2\<rparr>)
         [(shop_env, AddItem (Some ''Bearer carol'') 2 1)]) \<and>
      carol_order \<in> set rows \<and> o_items carol_order = [\<lparr>productId = 1, quantity = 1, price = 10\<rparr>] \<and>
      o_total_price carol_order = 10"
    by auto
  with auth_carol place_carol t show ?thesis by simp
qed

section \<open>Signup\<close>

lemma signup_errors_iff:
  "signup_errors e email password rl \<noteq> [] \<longleftrightarrow>
     \<not> isEmail e email \<or> length password < 6 \<or> rl \<notin> {''admin'', ''customer''}"
  by (simp add: signup_errors_def)

text \<open>
  Claim C9, as amended. \<^verbatim>\<open>signup\<close> answers 400 with the validation errors, and stores
  nothing, when the e-mail is malformed, the password has fewer than 6 characters or
  the role is neither admin nor customer. For a valid request with a registered e-mail
  it answers 500 with the generic message of a failed insert, and no user is added.
  Otherwise it adds a user whose stored password is the bcrypt hash, and answers 201
  with the id, the e-mail and the role.
\<close>

theorem signup_spec:
  "(\<not> isEmail e email \<or> length password < 6 \<or> rl \<notin> {''admin'', ''customer''} \<longrightarrow>
      (\<exists>errors. errors \<noteq> [] \<and>
         signup e d email password rl = ((400, Errors errors), d))) \<and>
   (isEmail e email \<and> 6 \<le> length password \<and> rl \<in> {''admin'', ''customer''} \<and>
    email \<in> u_email ` set (users d) \<longrightarrow>
      signup e d email password rl =
        ((500, ErrorMsg ''Failed to create user''),
         d\<lparr>users_id_seq := users_id_seq d + 1\<rparr>)) \<and>
   (isEmail e email \<and> 6 \<le> length password \<and> rl \<in> {''admin'', ''customer''} \<and>
    email \<notin> u_email ` set (users d) \<longrightarrow>
      signup e d email password rl =
        ((201, UserCreated ''User created successfully'' (users_id_seq d) email rl),
         d\<lparr>users_id_seq := users_id_seq d + 1,
           users := users d @
             [\<lparr>u_id = users_id_seq d, u_email = email,
               u_password = bcrypt_hash e password, u_role = rl\<rparr>]\<rparr>))"
proof (intro conjI impI)
  assume "\<not> isEmail e email \<or> length password < 6 \<or> rl \<notin> {''admin'', ''customer''}"
  then have "signup_errors e email password rl \<noteq> []"
    by (simp only: signup_errors_iff)
  then show "\<exists>errors. errors \<noteq> [] \<and>
         signup e d email password rl = ((400, Errors errors), d)"
    by (simp add: signup_def)
next
  assume h: "isEmail e email \<and> 6 \<le> length password \<and> rl \<in> {''admin'', ''customer''} \<and>
    email \<in> u_email ` set (users d)"
  then have "signup_errors e email password rl = []"
    using signup_errors_iff [of e email password rl] by auto
  with h show "signup e d email password rl =
        ((500, ErrorMsg ''Failed to create user''),
         d\<lparr>users_id_seq := users_id_seq d + 1\<rparr>)"
    by (simp add: signup_def Let_def)
next
  assume h: "isEmail e email \<and> 6 \<le> length password \<and> rl \<in> {''admin'', ''customer''} \<and>
    email \<notin> u_email ` set (users d)"
  then have "signup_errors e email password rl = []"
    using signup_errors_iff [of e email password rl] by auto
  with h show "signup e d email password rl =
        ((201, UserCreated ''User created successfully'' (users_id_seq d) email rl),
         d\<lparr>users_id_seq := users_id_seq d + 1,
           users := users d @
             [\<lparr>u_id = users_id_seq d, u_email = email,
               u_password = bcrypt_hash e password, u_role = rl\<rparr>]\<rparr>)"
    by (simp add: signup_def Let_def)
qed

text \<open>
  The claim as stated fails on a registered e-mail: the answer is the generic 500, not
  a conflict.
\<close>

theorem signup_conflict_counterexample:
  "signup shop_env shop_db ''carol@shop.test'' ''secret1'' ''customer'' =
     ((500, ErrorMsg ''Failed to create user''), shop_db\<lparr>users_id_seq := 4\<rparr>)"
  by (simp add: signup_def signup_errors_def shop_env_def shop_db_def Let_def)

theorem signup_spec_witness:
  "signup shop_env shop_db ''dave'' ''secret1'' ''customer'' =
     ((400, Errors [''Invalid email address'']), shop_db) \<and>
   signup shop_env shop_db ''dave@shop.test'' ''abc'' ''owner'' =
     ((400, Errors [''Password must be at least 6 characters long'', ''Invalid role'']),
      shop_db) \<and>
   signup shop_env shop_db ''alice@shop.test'' ''secret1'' ''admin'' =
     ((500, ErrorMsg ''Failed to create user''), shop_db\<lparr>users_id_seq := 4\<rparr>) \<and>
   signup shop_env shop_db ''dave@shop.test'' ''secret1'' ''customer'' =
     ((201, UserCreated ''User created successfully'' 3 ''dave@shop.test'' ''customer''),
      shop_db\<lparr>users_id_seq := 4,
        users := users shop_db @
          [\<lparr>u_id = 3, u_email = ''dave@shop.test'', u_password = ''$2b$10$1terces'',
            u_role = ''customer''\<rparr>]\<rparr>)"
proof -
  have a: "signup shop_env shop_db ''dave'' ''secret1'' ''customer'' =
     ((400, Errors [''Invalid email address'']), shop_db)"
    using signup_spec [of shop_env "''dave''" "''secret1''" "''customer''" shop_db]
    by (auto simp: shop_env_def signup_def signup_errors_def)
  have b: "signup shop_env shop_db ''dave@shop.test'' ''abc'' ''owner'' =
     ((400, Errors [''Password must be at least 6 characters long'', ''Invalid role'']),
      shop_db)"
    using signup_spec [of shop_env "''dave@shop.test''" "''abc''" "''owner''" shop_db]
    by (auto simp: shop_env_def signup_def signup_errors_def)
  have c: "signup shop_env shop_db ''alice@shop.test'' ''secret1'' ''admin'' =
     ((500, ErrorMsg ''Failed to create user''), shop_db\<lparr>users_id_seq := 4\<rparr>)"
    using signup_spec [of shop_env "''alice@shop.test''" "''secret1''" "''admin''" shop_db]
    by (simp add: shop_env_def shop_db_def)
  have d: "signup shop_env shop_db ''dave@shop.test'' ''secret1'' ''customer'' =
     ((201, UserCreated ''User created successfully'' 3 ''dave@shop.test'' ''customer''),
      shop_db\<lparr>users_id_seq := 4,
        users := users shop_db @
          [\<lparr>u_id = 3, u_email = ''dave@shop.test'', u_password = ''$2b$10$1terces'',
            u_role = ''customer''\<rparr>]\<rparr>)"
    using signup_spec [of shop_env "''dave@shop.test''" "''secret1''" "''customer''" shop_db]
    by (simp add: shop_env_def shop_db_def)
  from a b c d show ?thesis by simp
qed

section \<open>Products: update and the image\<close>









section \<open>Access policy\<close>

text \<open>The product routes answer 403 to an identity that is not an admin, and store nothing.\<close>

lemma product_mutations_forbidden:
  assumes "authenticateJWT e a = Inr user" and "role user \<noteq> ''admin''"
  shows "createProduct e d a b = ((403, Message ''Forbidden. Admin access required.''), d)"
    and "updateProduct e d a pid b = ((403, Message ''Forbidden. Admin access required.''), d)"
    and "deleteProduct e d a pid = ((403, Message ''Forbidden. Admin access required.''), d)"
  using assms
  by (simp_all add: createProduct_def updateProduct_def deleteProduct_def authorizeAdmin_def)

text \<open>
  Claim C5 fails on the category routes: for carol, whose role is customer, the
  category is created, renamed and deleted.
\<close>

theorem category_mutations_by_customer:
  "authenticateJWT shop_env (Some ''Bearer carol'') = Inr \<lparr>userId = 2, role = ''customer''\<rparr> \<and>
   createCategory shop_env shop_db (Some ''Bearer carol'') ''Toys'' None =
     ((201, Category \<lparr>c_id = 2, c_name = ''Toys'', c_description = None\<rparr>),
      shop_db\<lparr>categories_id_seq := 3,
        categories := [\<lparr>c_id = 1, c_name = ''Electronics'', c_description = None\<rparr>,
                       \<lparr>c_id = 2, c_name = ''Toys'', c_description = None\<rparr>]\<rparr>) \<and>
   updateCategory shop_env shop_db (Some ''Bearer carol'') 1 (Some ''Gizmos'') None =
     ((200, Category \<lparr>c_id = 1, c_name = ''Gizmos'', c_description = None\<rparr>),
      shop_db\<lparr>categories := [\<lparr>c_id = 1, c_name = ''Gizmos'', c_description = None\<rparr>]\<rparr>) \<and>
   deleteCategory shop_env
     (shop_db\<lparr>categories_id_seq := 3,
        categories := [\<lparr>c_id = 1, c_name = ''Electronics'', c_description = None\<rparr>,
                       \<lparr>c_id = 2, c_name = ''Toys'', c_description = None\<rparr>]\<rparr>)
     (Some ''Bearer carol'') 2 =
     ((200, Message ''Category deleted successfully''),
      shop_db\<lparr>categories_id_seq := 3,
        categories := [\<lparr>c_id = 1, c_name = ''Electronics'', c_description = None\<rparr>]\<rparr>)"
  by (simp add: createCategory_def updateCategory_def deleteCategory_def authenticateJWT_def
      shop_env_def shop_db_def Let_def widget_def gadget_def)

section \<open>The price of a cart line\<close>





end
